theory Spec2Isabelle
  imports Main
begin

section \<open>Generative Stochastic Network: the computation engine of opendeep/models/gsn.py\<close>

text \<open>
  The module builds Theano expression graphs. A tensor is therefore modelled as the
  expression that denotes it: every Theano or numpy operation the module calls is one
  constructor, applied to the expressions of its operands. Nothing is assumed about
  the arithmetic of the operations, so what is proved of an expression holds for
  every numeric reading of it. A random operation carries the position of its draw in
  the random stream it reads, so that two draws are two different expressions.
\<close>

subsection \<open>Tensors, errors and Python lists\<close>

datatype tensor =
    Fmatrix string                  \<comment> \<open>\<open>T.fmatrix(name)\<close>, a shared variable or a numpy array\<close>
  | H_sampling nat                  \<comment> \<open>\<open>T.fmatrix("H_sampling_"+str(n))\<close>\<close>
  | Dot tensor tensor               \<comment> \<open>\<open>T.dot(a, b)\<close>\<close>
  | Transpose tensor                \<comment> \<open>\<open>a.T\<close>\<close>
  | Add tensor tensor               \<comment> \<open>\<open>a + b\<close>\<close>
  | Elemwise string tensor          \<comment> \<open>a named elementwise function, such as a sigmoid\<close>
  | Zeros_like tensor               \<comment> \<open>\<open>T.zeros_like(a)\<close>\<close>
  | Np_zeros tensor int             \<comment> \<open>\<open>numpy.zeros((a.shape[0], n))\<close>\<close>
  | Gaussian tensor tensor nat      \<comment> \<open>input plus Gaussian noise: input, sigma, draw\<close>
  | Masked tensor tensor nat        \<comment> \<open>input under salt-and-pepper noise: input, rate, draw\<close>
  | Binomial tensor nat             \<comment> \<open>\<open>MRG.binomial(p = a, size = a.shape)\<close>: p, draw\<close>
  | Np_binomial tensor nat          \<comment> \<open>\<open>rng.binomial(n = 1, p = a, size = a.shape)\<close>: p, draw\<close>
  | Stack "tensor list"             \<comment> \<open>\<open>T.stack(list)\<close>\<close>
  | Vstack "tensor list"            \<comment> \<open>\<open>numpy.vstack(list)\<close>\<close>

datatype error = IndexError | AttributeError | TypeError | ZeroDivisionError

type_synonym 'a result = "error + 'a"

definition and_then :: "'a result \<Rightarrow> ('a \<Rightarrow> 'b result) \<Rightarrow> 'b result" where
  "and_then r f = (case r of Inl e \<Rightarrow> Inl e | Inr v \<Rightarrow> f v)"

text \<open>\<open>xs[i]\<close> and \<open>xs[i] = v\<close> for an index that is not negative, and \<open>xs[-1]\<close>.\<close>

definition getitem :: "'a list \<Rightarrow> nat \<Rightarrow> 'a result" where
  "getitem xs i = (if i < length xs then Inr (xs ! i) else Inl IndexError)"

definition setitem :: "'a list \<Rightarrow> nat \<Rightarrow> 'a \<Rightarrow> 'a list result" where
  "setitem xs i v = (if i < length xs then Inr (xs[i := v]) else Inl IndexError)"

definition getlast :: "'a list \<Rightarrow> 'a result" where
  "getlast xs = (if xs = [] then Inl IndexError else Inr (last xs))"



subsection \<open>The model object, the graph under construction and the log\<close>


text \<open>The messages handed to \<open>log.maybeLog\<close>, one constructor for each call.\<close>

datatype log_event =
    Using_T tensor
  | Using tensor
  | Using_and_T tensor tensor
  | No_noise_in_first_hidden_layer
  | Adding_pre_activation_noise nat
  | Activation_for_visible_layer
  | Hidden_units_activation nat
  | Adding_post_activation_noise nat
  | Sampling_from_input
  | No_input_sampling
  | Updating_layer nat
  | Odd_layer_updates
  | Even_layer_updates
  | Done_full_update
  | Building_the_GSN_graph int
  | GSN_walkback nat int
  | Building_the_GSN_graph_given_hiddens int
  | GSN_prediction_walkback nat int
  | Building_the_GSN_graph_with int
  | GSN_after_scan_walkback nat int
  | Starting_sampling
  | About_remaining
  | Sampling_done
  | Loading_existing_GSN_parameters
  | Parameters_loaded
  | Could_not_find_parameter_file
  | Length_of_input_params_different nat nat

text \<open>
  The objects the helpers mutate in place: the list \<open>hiddens\<close>, the random stream
  \<open>MRG\<close> (the number of draws taken from it so far) and the log. The chain
  \<open>p_X_chain\<close> is a separate argument, because the odd pass hands over \<open>None\<close>.
\<close>

record graph =
  hiddens :: "tensor list"
  MRG :: nat
  logged :: "log_event list"

definition maybeLog :: "log_event \<Rightarrow> graph \<Rightarrow> graph" where
  "maybeLog msg g = g\<lparr>logged := logged g @ [msg]\<rparr>"

subsection \<open>Noise\<close>




subsection \<open>The update of one layer\<close>








subsection \<open>Passes and sweeps\<close>





subsection \<open>The main builder\<close>






subsection \<open>Costs over the chain\<close>






subsection \<open>Momentum stochastic gradient descent\<close>

text \<open>
  The shared variables that \<open>f_learn\<close> updates: the parameters, one gradient buffer for
  each, the learning rate and the momentum. Their values are of any type with
  addition, subtraction, multiplication and a one; no law of arithmetic is used. The
  gradient is the list that \<open>T.grad(gsn_cost, self.params)\<close> evaluates to on the minibatch.
\<close>

record 'a sgd =
  params :: "'a list"
  gradient_buffer :: "'a list"
  learning_rate :: 'a
  momentum :: 'a

definition init_gradient_buffer :: "'a list \<Rightarrow> 'a::zero list" where
  "init_gradient_buffer ps = map (\<lambda>param. 0) ps"

definition m_gradient :: "'a::{plus,minus,times,one} sgd \<Rightarrow> 'a list \<Rightarrow> 'a list" where
  "m_gradient s gradient =
     map (\<lambda>(gb, g). momentum s * gb + (1 - momentum s) * g) (zip (gradient_buffer s) gradient)"

definition param_updates :: "'a::{plus,minus,times,one} sgd \<Rightarrow> 'a list \<Rightarrow> 'a list" where
  "param_updates s gradient =
     map (\<lambda>(param, mg). param - learning_rate s * mg) (zip (params s) (m_gradient s gradient))"

text \<open>An update list gives new values to the leading variables it covers; the variables
  beyond its length keep their values.\<close>

fun apply_updates :: "'a list \<Rightarrow> 'a list \<Rightarrow> 'a list" where
  "apply_updates (v # vs) (x # xs) = v # apply_updates vs xs"
| "apply_updates vs xs = xs"

text \<open>One call of \<open>f_learn\<close>: every update expression is evaluated on the values held
  before the call, and all are assigned together.\<close>

definition f_learn :: "'a::{plus,minus,times,one} sgd \<Rightarrow> 'a list \<Rightarrow> 'a sgd" where
  "f_learn s gradient =
     s\<lparr>params := apply_updates (param_updates s gradient) (params s),
       gradient_buffer := apply_updates (m_gradient s gradient) (gradient_buffer s)\<rparr>"

subsection \<open>Loading parameters\<close>



subsection \<open>Sampling\<close>











subsection \<open>Notions used in the statements\<close>




text \<open>The layers that the log reports as updated, in the order of the reports.\<close>

definition updated_layers :: "log_event list \<Rightarrow> nat list" where
  "updated_layers evs =
     List.map_filter (\<lambda>e. case e of Updating_layer i \<Rightarrow> Some i | _ \<Rightarrow> None) evs"



subsection \<open>Concrete models\<close>




definition example_sgd :: "int sgd" where
  "example_sgd = \<lparr>params = [10, 20], gradient_buffer = [0, 4], learning_rate = 2, momentum = 3\<rparr>"


section \<open>Properties\<close>

subsection \<open>Errors, lists and the log\<close>

lemma and_then_Inr [simp]: "and_then (Inr v) f = f v"
  by (simp add: and_then_def)

lemma and_then_Inl [simp]: "and_then (Inl e) f = Inl e"
  by (simp add: and_then_def)

lemma getitem_in_range [simp]: "i < length xs \<Longrightarrow> getitem xs i = Inr (xs ! i)"
  by (simp add: getitem_def)

lemma setitem_in_range [simp]: "i < length xs \<Longrightarrow> setitem xs i v = Inr (xs[i := v])"
  by (simp add: setitem_def)


lemma updated_layers_append [simp]:
  "updated_layers (xs @ ys) = updated_layers xs @ updated_layers ys"
  by (simp add: updated_layers_def map_filter_def)

lemma updated_layers_Nil [simp]: "updated_layers [] = []"
  by (simp add: updated_layers_def map_filter_def)



subsection \<open>One layer\<close>



subsection \<open>Passes\<close>

lemma maybeLog_simps [simp]:
  "hiddens (maybeLog e g) = hiddens g" "MRG (maybeLog e g) = MRG g"
  "logged (maybeLog e g) = logged g @ [e]"
  by (simp_all add: maybeLog_def)













lemma getlast_nonempty [simp]: "xs \<noteq> [] \<Longrightarrow> getlast xs = Inr (last xs)"
  by (simp add: getlast_def)

subsection \<open>The length of the training chain\<close>



subsection \<open>The order of the layer updates\<close>




subsection \<open>The update of the visible layer\<close>




subsection \<open>Gaussian noise\<close>



subsection \<open>The pre-activation\<close>



subsection \<open>The training step\<close>

lemma apply_updates_same_length: "length vs = length xs \<Longrightarrow> apply_updates vs xs = vs"
  by (induction vs xs rule: apply_updates.induct) simp_all

text \<open>
  Claim C9. One call of \<open>f_learn\<close> gives every gradient buffer the value
  \<open>momentum * buffer + (1 - momentum) * gradient\<close> and every parameter the value
  \<open>parameter - learning_rate * new buffer\<close>. There is one buffer for each parameter,
  before and after the call, and the next call starts from the buffers this one left.
\<close>

theorem momentum_sgd_step:
  fixes s :: "'a::{plus,minus,times,one,zero} sgd"
  assumes "length (gradient_buffer s) = length (params s)"
    and "length gradient = length (params s)"
    and "length gradient' = length (params s)"
    and "j < length (params s)"
  shows "gradient_buffer (f_learn s gradient) ! j
           = momentum s * gradient_buffer s ! j + (1 - momentum s) * gradient ! j
       \<and> params (f_learn s gradient) ! j
           = params s ! j - learning_rate s * gradient_buffer (f_learn s gradient) ! j
       \<and> length (gradient_buffer (f_learn s gradient)) = length (params (f_learn s gradient))
       \<and> length (params (f_learn s gradient)) = length (params s)
       \<and> momentum (f_learn s gradient) = momentum s
       \<and> learning_rate (f_learn s gradient) = learning_rate s
       \<and> gradient_buffer (f_learn (f_learn s gradient) gradient') ! j
           = momentum s * gradient_buffer (f_learn s gradient) ! j + (1 - momentum s) * gradient' ! j
       \<and> length (init_gradient_buffer (params s)) = length (params s)"
proof -
  have step: "gradient_buffer (f_learn t g) = m_gradient t g
      \<and> params (f_learn t g) = param_updates t g
      \<and> length (m_gradient t g) = length (params t)
      \<and> length (param_updates t g) = length (params t)"
    if "length (gradient_buffer t) = length (params t)" and "length g = length (params t)"
    for t :: "'a sgd" and g
    using that by (simp add: f_learn_def apply_updates_same_length m_gradient_def param_updates_def)
  have nth: "m_gradient t g ! j = momentum t * gradient_buffer t ! j + (1 - momentum t) * g ! j
      \<and> param_updates t g ! j = params t ! j - learning_rate t * m_gradient t g ! j"
    if "length (gradient_buffer t) = length (params t)" and "length g = length (params t)"
      and "j < length (params t)"
    for t :: "'a sgd" and g
    using that by (simp add: m_gradient_def param_updates_def)
  note s1 = step[OF assms(1,2)] and n1 = nth[OF assms(1,2,4)]
  have keep: "momentum (f_learn s gradient) = momentum s"
    "learning_rate (f_learn s gradient) = learning_rate s"
    by (simp_all add: f_learn_def)
  from s1 have l2: "length (gradient_buffer (f_learn s gradient)) = length (params (f_learn s gradient))"
    and l3: "length gradient' = length (params (f_learn s gradient))"
    and l4: "j < length (params (f_learn s gradient))"
    using assms(3,4) by simp_all
  note s2 = step[OF l2 l3] and n2 = nth[OF l2 l3 l4]
  from s1 n1 s2 n2 keep show ?thesis
    by (simp add: init_gradient_buffer_def)
qed

text \<open>Two parameters over the integers, two minibatches.\<close>

theorem momentum_sgd_step_witness:
  "length (gradient_buffer example_sgd) = length (params example_sgd)
   \<and> length [1, 5::int] = length (params example_sgd)
   \<and> length [7, 7::int] = length (params example_sgd)
   \<and> 1 < length (params example_sgd)
   \<and> gradient_buffer (f_learn example_sgd [1, 5]) ! 1 = 3 * 4 + (1 - 3) * 5
   \<and> params (f_learn example_sgd [1, 5]) ! 1 = 20 - 2 * 2
   \<and> gradient_buffer (f_learn (f_learn example_sgd [1, 5]) [7, 7]) ! 1 = 3 * 2 + (1 - 3) * 7"
proof -
  have h: "length (gradient_buffer example_sgd) = length (params example_sgd)"
    "length [1, 5::int] = length (params example_sgd)"
    "length [7, 7::int] = length (params example_sgd)"
    "1 < length (params example_sgd)"
    by (simp_all add: example_sgd_def)
  have v: "momentum example_sgd = 3" "learning_rate example_sgd = 2"
    "gradient_buffer example_sgd ! Suc 0 = 4" "params example_sgd ! Suc 0 = 20"
    by (simp_all add: example_sgd_def)
  from momentum_sgd_step[OF h] h show ?thesis
    by (simp add: v)
qed

subsection \<open>Loading parameters\<close>




subsection \<open>Sampling\<close>













subsection \<open>Values do not depend on the log\<close>












subsection \<open>The training cost\<close>







end
